theory Spec2Isabelle
  imports Main
begin

section \<open>JavaScript strings and the regular expressions of the handler\<close>

text \<open>
  A JavaScript string is modelled as a \<^typ>\<open>string\<close>: a list of code units, each in the
  Latin-1 range \<open>0x00 .. 0xFF\<close>. Everything below that inspects characters (white space,
  word characters, lower-casing) is the Latin-1 restriction of what the engine does.
\<close>

definition nl :: char where "nl = CHR 0x0A"
definition bt :: char where "bt = CHR 0x60"
definition dq :: char where "dq = CHR 0x22"
definition bsl :: char where "bsl = CHR 0x5C"

text \<open>The three backticks of a markdown fence.\<close>

definition fence :: string where "fence = [bt, bt, bt]"

text \<open>\<open>\s\<close> of a regular expression, and the characters \<open>trim()\<close> strips.\<close>

definition isSpace :: "char \<Rightarrow> bool" where
  "isSpace c = (c \<in> set [CHR 0x09, CHR 0x0A, CHR 0x0B, CHR 0x0C, CHR 0x0D, CHR 0x20, CHR 0xA0])"

definition isUpperAZ :: "char \<Rightarrow> bool" where
  "isUpperAZ c = (c \<in> set ''ABCDEFGHIJKLMNOPQRSTUVWXYZ'')"

definition isLowerAZ :: "char \<Rightarrow> bool" where
  "isLowerAZ c = (c \<in> set ''abcdefghijklmnopqrstuvwxyz'')"

definition isDigit :: "char \<Rightarrow> bool" where
  "isDigit c = (c \<in> set ''0123456789'')"

text \<open>\<open>[a-zA-Z]\<close> and \<open>\w\<close>.\<close>

definition isAlpha :: "char \<Rightarrow> bool" where
  "isAlpha c = (isLowerAZ c \<or> isUpperAZ c)"

definition isWord :: "char \<Rightarrow> bool" where
  "isWord c = (isAlpha c \<or> isDigit c \<or> c = CHR ''_'')"

text \<open>
  \<open>String.prototype.toLowerCase\<close> on Latin-1: \<open>A-Z\<close> and the capital letters
  \<open>0xC0 .. 0xDE\<close> (but not the multiplication sign \<open>0xD7\<close>) move up by \<open>0x20\<close>.
\<close>

definition lowerTable :: "(char \<times> char) list" where
  "lowerTable =
     zip ''ABCDEFGHIJKLMNOPQRSTUVWXYZ'' ''abcdefghijklmnopqrstuvwxyz'' @
     zip [CHR 0xC0, CHR 0xC1, CHR 0xC2, CHR 0xC3, CHR 0xC4, CHR 0xC5, CHR 0xC6, CHR 0xC7,
          CHR 0xC8, CHR 0xC9, CHR 0xCA, CHR 0xCB, CHR 0xCC, CHR 0xCD, CHR 0xCE, CHR 0xCF,
          CHR 0xD0, CHR 0xD1, CHR 0xD2, CHR 0xD3, CHR 0xD4, CHR 0xD5, CHR 0xD6,
          CHR 0xD8, CHR 0xD9, CHR 0xDA, CHR 0xDB, CHR 0xDC, CHR 0xDD, CHR 0xDE]
         [CHR 0xE0, CHR 0xE1, CHR 0xE2, CHR 0xE3, CHR 0xE4, CHR 0xE5, CHR 0xE6, CHR 0xE7,
          CHR 0xE8, CHR 0xE9, CHR 0xEA, CHR 0xEB, CHR 0xEC, CHR 0xED, CHR 0xEE, CHR 0xEF,
          CHR 0xF0, CHR 0xF1, CHR 0xF2, CHR 0xF3, CHR 0xF4, CHR 0xF5, CHR 0xF6,
          CHR 0xF8, CHR 0xF9, CHR 0xFA, CHR 0xFB, CHR 0xFC, CHR 0xFD, CHR 0xFE]"

definition toLowerChar :: "char \<Rightarrow> char" where
  "toLowerChar c = (case map_of lowerTable c of Some l \<Rightarrow> l | None \<Rightarrow> c)"

definition toLowerCase :: "string \<Rightarrow> string" where
  "toLowerCase s = map toLowerChar s"

text \<open>\<open>s.startsWith(p)\<close>, \<open>s.endsWith(p)\<close> and \<open>s.includes(p)\<close>.\<close>

definition startsWith :: "string \<Rightarrow> string \<Rightarrow> bool" where
  "startsWith s p = (take (length p) s = p)"

definition endsWith :: "string \<Rightarrow> string \<Rightarrow> bool" where
  "endsWith s p = startsWith (rev s) (rev p)"

fun includesStr :: "string \<Rightarrow> string \<Rightarrow> bool" where
  "includesStr [] p = (p = [])"
| "includesStr (c # cs) p = (startsWith (c # cs) p \<or> includesStr cs p)"

text \<open>\<open>s.trim()\<close>.\<close>

definition trim :: "string \<Rightarrow> string" where
  "trim s = rev (dropWhile isSpace (rev (dropWhile isSpace s)))"

text \<open>
  \<open>fileName.toLowerCase().split('.').pop()\<close>: the part of the lower-cased name after its
  last dot, the whole lower-cased name when it has no dot. \<open>split\<close> never returns an empty
  array, so the result is always a string (possibly the empty one, which is falsy).
\<close>

definition lastSegment :: "string \<Rightarrow> string" where
  "lastSegment s = rev (takeWhile (\<lambda>c. c \<noteq> CHR ''.'') (rev s))"

subsection \<open>Global replacement\<close>

text \<open>
  A pattern is given by its matcher: applied to the input from the current position on,
  it returns the length of the match that the backtracking engine finds there, or
  \<open>None\<close>. No pattern of the handler matches the empty string.
  \<open>s.replace(/p/g, rep)\<close> scans from the left, replaces each match and goes on behind
  it; the counter is the number of characters of the current match still to be skipped.
\<close>

type_synonym matcher = "string \<Rightarrow> nat option"

fun replaceFrom :: "matcher \<Rightarrow> string \<Rightarrow> nat \<Rightarrow> string \<Rightarrow> string" where
  "replaceFrom m rep k [] = []"
| "replaceFrom m rep (Suc k) (c # cs) = replaceFrom m rep k cs"
| "replaceFrom m rep 0 (c # cs) =
     (case m (c # cs) of
        Some (Suc n) \<Rightarrow> rep @ replaceFrom m rep n cs
      | _ \<Rightarrow> c # replaceFrom m rep 0 cs)"

definition replaceAll :: "matcher \<Rightarrow> string \<Rightarrow> string \<Rightarrow> string" where
  "replaceAll m rep s = replaceFrom m rep 0 s"

text \<open>A literal pattern.\<close>

definition lit :: "string \<Rightarrow> matcher" where
  "lit p s = (if startsWith s p then Some (length p) else None)"

text \<open>
  \<open>p[^>]*>\<close> for a literal \<open>p\<close>: the greedy class runs up to the first \<open>>\<close> behind
  \<open>p\<close>, and there is no match when none follows.
\<close>

definition tag :: "string \<Rightarrow> matcher" where
  "tag p s =
     (if startsWith s p
      then (let r = drop (length p) s
            in if CHR ''>'' \<in> set r
               then Some (length p + length (takeWhile (\<lambda>c. c \<noteq> CHR ''>'') r) + 1)
               else None)
      else None)"

text \<open>\<open>a|b\<close>: the first alternative that matches wins.\<close>

definition alt :: "matcher \<Rightarrow> matcher \<Rightarrow> matcher" where
  "alt a b s = (case a s of Some n \<Rightarrow> Some n | None \<Rightarrow> b s)"

text \<open>\<open>c+\<close> for a character class \<open>c\<close>.\<close>

definition many1 :: "(char \<Rightarrow> bool) \<Rightarrow> matcher" where
  "many1 P s = (let n = length (takeWhile P s) in if 0 < n then Some n else None)"

text \<open>\<open><h[1-6]\<close> followed by \<open>[^>]*>\<close>, and \<open></h[1-6]>\<close>.\<close>

definition headingOpen :: matcher where
  "headingOpen s =
     (case s of
        a # b # c # r \<Rightarrow>
          if a = CHR ''<'' \<and> b = CHR ''h'' \<and> c \<in> set ''123456'' then tag [a, b, c] s else None
      | _ \<Rightarrow> None)"

definition headingClose :: matcher where
  "headingClose s =
     (case s of
        a # b # c # d # e # r \<Rightarrow>
          if a = CHR ''<'' \<and> b = CHR ''/'' \<and> c = CHR ''h'' \<and> d \<in> set ''123456'' \<and> e = CHR ''>''
          then Some 5 else None
      | _ \<Rightarrow> None)"

text \<open>\<open>\|\s*\|\<close>: the class cannot take a bar, so there is one way to match.\<close>

definition barBar :: matcher where
  "barBar s =
     (case s of
        c # r \<Rightarrow>
          if c = CHR ''|'' \<and> startsWith (dropWhile isSpace r) ''|''
          then Some (length (takeWhile isSpace r) + 2) else None
      | [] \<Rightarrow> None)"

text \<open>\<open>\s*\|\s*\<close>.\<close>

definition spacedBar :: matcher where
  "spacedBar s =
     (case dropWhile isSpace s of
        c # r \<Rightarrow>
          if c = CHR ''|''
          then Some (length (takeWhile isSpace s) + 1 + length (takeWhile isSpace r))
          else None
      | [] \<Rightarrow> None)"

text \<open>
  \<open>\n\s*\n\s*\n\<close>: after the first newline, let \<open>w\<close> be the run of white space that
  follows. The pattern matches when \<open>w\<close> holds at least two newlines, and the two greedy
  classes carry the match to the last newline of \<open>w\<close>.
\<close>

definition blankLines :: matcher where
  "blankLines s =
     (case s of
        c # r \<Rightarrow>
          (let w = takeWhile isSpace r
           in if c = nl \<and> 2 \<le> length (filter (\<lambda>x. x = nl) w)
              then Some (1 + length (dropWhile (\<lambda>x. x \<noteq> nl) (rev w)))
              else None)
      | [] \<Rightarrow> None)"

text \<open>\<open>\n +\<close>.\<close>

definition newlineSpaces :: matcher where
  "newlineSpaces s =
     (case s of
        c # r \<Rightarrow>
          (let n = length (takeWhile (\<lambda>x. x = CHR '' '') r)
           in if c = nl \<and> 0 < n then Some (1 + n) else None)
      | [] \<Rightarrow> None)"

subsection \<open>The patterns of the handler\<close>

text \<open>
  The chain of replacements that flattens mammoth's HTML (lines 132-166 of the handler),
  in the order of the source. \<open><br[^>]*\/?>|<br>\<close> matches what \<open><br[^>]*>\<close> matches:
  the class already runs to the first \<open>>\<close>, the optional slash then takes nothing, and
  where the first alternative fails no \<open>>\<close> follows, so the second fails too.
\<close>

definition htmlRules :: "(matcher \<times> string) list" where
  "htmlRules =
    [(tag ''<table'', [nl] @ ''--- TABLE START ---'' @ [nl]),
     (lit ''</table>'', [nl] @ ''--- TABLE END ---'' @ [nl]),
     (tag ''<tr'', [nl]),
     (lit ''</tr>'', []),
     (tag ''<td'', '' | ''),
     (lit ''</td>'', []),
     (tag ''<th'', '' | ''),
     (lit ''</th>'', []),
     (tag ''<p'', [nl]),
     (lit ''</p>'', []),
     (alt (tag ''<br'') (lit ''<br>''), [nl]),
     (tag ''<div'', [nl]),
     (lit ''</div>'', []),
     (headingOpen, [nl] @ ''### ''),
     (headingClose, '' ###'' @ [nl]),
     (tag ''<li'', [nl] @ ''- ''),
     (lit ''</li>'', []),
     (alt (tag ''<ul'') (alt (lit ''</ul>'') (alt (tag ''<ol'') (lit ''</ol>''))), [nl]),
     (alt (tag ''<strong'') (alt (lit ''</strong>'') (alt (tag ''<b'') (lit ''</b>''))), []),
     (alt (tag ''<em'') (alt (lit ''</em>'') (alt (tag ''<i'') (lit ''</i>''))), []),
     (tag ''<'', '' ''),
     (lit ''&nbsp;'', '' ''),
     (lit ''&amp;'', ''&''),
     (lit ''&lt;'', ''<''),
     (lit ''&gt;'', ''>''),
     (lit ''&quot;'', [dq]),
     (lit ''&#39;'', [CHR 0x27]),
     (lit ''&apos;'', [CHR 0x27]),
     (barBar, ''|''),
     (spacedBar, '' | ''),
     (blankLines, [nl, nl]),
     (many1 (\<lambda>c. c = CHR '' '' \<or> c = CHR 0x09), '' ''),
     (newlineSpaces, [nl])]"

definition htmlToText :: "string \<Rightarrow> string" where
  "htmlToText h = trim (foldl (\<lambda>s (m, rep). replaceAll m rep s) h htmlRules)"

text \<open>
  The salvage of lines 181-184: every character outside \<open>[\x20-\x7E\n\r\t]\<close> becomes a
  blank, runs of white space become one blank, and the result is trimmed.
\<close>

definition isPrintable :: "char \<Rightarrow> bool" where
  "isPrintable c =
     ((32 \<le> (of_char c :: nat) \<and> (of_char c :: nat) \<le> 126) \<or> c = nl \<or> c = CHR 0x0D \<or> c = CHR 0x09)"

definition salvage :: "string \<Rightarrow> string" where
  "salvage p =
     trim (replaceAll (many1 isSpace) '' ''
       (map (\<lambda>c. if isPrintable c then c else CHR '' '') p))"

text \<open>The number of matches of \<open>[^\w\s.,!?@()-]\<close> (line 202).\<close>

definition specialChars :: "string \<Rightarrow> nat" where
  "specialChars t = length (filter (\<lambda>c. \<not> (isWord c \<or> isSpace c \<or> c \<in> set ''.,!?@()-'')) t)"

text \<open>
  The clean-up of the model's reply (lines 420-425). The first replacement removes every
  match of the alternation of \<open>```json\n?\<close> and \<open>\n?```\<close>; and when the trimmed result still
  starts with a fence, \<open>^```[a-zA-Z]*\n?\<close> and \<open>\n?```$\<close> are removed once each.
\<close>

definition fenceJson :: matcher where
  "fenceJson s =
     (if startsWith s (fence @ ''json'')
      then Some (if startsWith (drop 7 s) [nl] then 8 else 7)
      else None)"

definition fenceAny :: matcher where
  "fenceAny s =
     (if startsWith s (nl # fence) then Some 4
      else if startsWith s fence then Some 3
      else None)"

definition stripLeadingFence :: "string \<Rightarrow> string" where
  "stripLeadingFence t =
     (if startsWith t fence
      then (let r = dropWhile isAlpha (drop 3 t) in if startsWith r [nl] then drop 1 r else r)
      else t)"

definition stripTrailingFence :: "string \<Rightarrow> string" where
  "stripTrailingFence t =
     (if endsWith t fence
      then (let r = take (length t - 3) t in if endsWith r [nl] then butlast r else r)
      else t)"

definition cleanReply :: "string \<Rightarrow> string" where
  "cleanReply reply =
     (let t = trim (replaceAll (alt fenceJson fenceAny) [] reply)
      in if startsWith t fence then stripTrailingFence (stripLeadingFence t) else t)"

text \<open>
  \<open>text.match(/\{[\s\S]*\}/)\<close> (line 448): the class takes every character, so the match
  runs from the first opening brace to the last closing brace behind it.
\<close>

definition matchBraces :: "string \<Rightarrow> string option" where
  "matchBraces t =
     (let r = dropWhile (\<lambda>c. c \<noteq> CHR ''{'') t
      in if CHR ''}'' \<in> set r
         then Some (rev (dropWhile (\<lambda>c. c \<noteq> CHR ''}'') (rev r)))
         else None)"

section \<open>JSON values and \<open>JSON.parse\<close>\<close>

text \<open>
  A JSON value as \<open>JSON.parse\<close> builds it and as \<open>NextResponse.json\<close> sends it. A string
  value is a list of UTF-16 code units, since a \<open>\uXXXX\<close> escape reaches beyond Latin-1;
  a number is kept as its literal. An object lists its keys in the order of their first
  insertion; a key that is set again keeps its place and takes the new value.
\<close>

datatype json =
    JNull
  | JBool bool
  | JNumber string
  | JString "nat list"
  | JArray "json list"
  | JObject "(nat list \<times> json) list"

definition ustr :: "string \<Rightarrow> nat list" where
  "ustr s = map of_char s"

definition jstr :: "string \<Rightarrow> json" where
  "jstr s = JString (ustr s)"

text \<open>Reading and writing a property of an object.\<close>

definition field :: "string \<Rightarrow> json \<Rightarrow> json option" where
  "field k j = (case j of JObject kvs \<Rightarrow> map_of kvs (ustr k) | _ \<Rightarrow> None)"

definition objPut :: "nat list \<Rightarrow> json \<Rightarrow> (nat list \<times> json) list \<Rightarrow> (nat list \<times> json) list" where
  "objPut k v kvs =
     (if k \<in> fst ` set kvs
      then map (\<lambda>(k', v'). if k' = k then (k', v) else (k', v')) kvs
      else kvs @ [(k, v)])"

subsection \<open>The parser\<close>

definition jsonWs :: "char \<Rightarrow> bool" where
  "jsonWs c = (c \<in> set [CHR 0x20, CHR 0x09, CHR 0x0A, CHR 0x0D])"

definition hexVal :: "char \<Rightarrow> nat option" where
  "hexVal c =
     map_of (zip ''0123456789abcdefABCDEF''
       [0, 1, 2, 3, 4, 5, 6, 7, 8, 9, 10, 11, 12, 13, 14, 15, 10, 11, 12, 13, 14, 15]) c"

definition hex4 :: "char \<Rightarrow> char \<Rightarrow> char \<Rightarrow> char \<Rightarrow> nat option" where
  "hex4 a b c d =
     (case (hexVal a, hexVal b, hexVal c, hexVal d) of
        (Some w, Some x, Some y, Some z) \<Rightarrow> Some (((w * 16 + x) * 16 + y) * 16 + z)
      | _ \<Rightarrow> None)"

text \<open>The code unit of a one-letter escape.\<close>

definition escapeOf :: "char \<Rightarrow> nat option" where
  "escapeOf e =
     map_of [(dq, 34), (bsl, 92), (CHR ''/'', 47), (CHR ''b'', 8), (CHR ''f'', 12),
             (CHR ''n'', 10), (CHR ''r'', 13), (CHR ''t'', 9)] e"

text \<open>
  A string, read from behind its opening quote: the code units up to the closing quote
  and the rest of the input. A control character below \<open>0x20\<close> ends the parse.
\<close>

fun parseString :: "nat list \<Rightarrow> string \<Rightarrow> (nat list \<times> string) option" where
  "parseString acc [] = None"
| "parseString acc (c # cs) =
     (if c = dq then Some (acc, cs)
      else if c = bsl then
        (case cs of
           [] \<Rightarrow> None
         | e # r \<Rightarrow>
             if e = CHR ''u'' then
               (case r of
                  h1 # h2 # h3 # h4 # r' \<Rightarrow>
                    (case hex4 h1 h2 h3 h4 of
                       Some n \<Rightarrow> parseString (acc @ [n]) r'
                     | None \<Rightarrow> None)
                | _ \<Rightarrow> None)
             else
               (case escapeOf e of
                  Some n \<Rightarrow> parseString (acc @ [n]) r
                | None \<Rightarrow> None))
      else if (of_char c :: nat) < 32 then None
      else parseString (acc @ [of_char c]) cs)"

text \<open>
  A number: \<open>-?(0|[1-9][0-9]*)(\.[0-9]+)?([eE][+-]?[0-9]+)?\<close>. The functions return the
  input behind the part they read.
\<close>

definition skipInt :: "string \<Rightarrow> string option" where
  "skipInt s =
     (case s of
        [] \<Rightarrow> None
      | c # r \<Rightarrow>
          if c = CHR ''0'' then Some r
          else if isDigit c then Some (dropWhile isDigit r)
          else None)"

definition skipFrac :: "string \<Rightarrow> string option" where
  "skipFrac s =
     (case s of
        [] \<Rightarrow> Some s
      | c # r \<Rightarrow>
          if c = CHR ''.'' then (if takeWhile isDigit r = [] then None else Some (dropWhile isDigit r))
          else Some s)"

definition skipExp :: "string \<Rightarrow> string option" where
  "skipExp s =
     (case s of
        [] \<Rightarrow> Some s
      | c # r \<Rightarrow>
          if c = CHR ''e'' \<or> c = CHR ''E'' then
            (let d = (case r of [] \<Rightarrow> r | x # r' \<Rightarrow> if x = CHR ''+'' \<or> x = CHR ''-'' then r' else r)
             in if takeWhile isDigit d = [] then None else Some (dropWhile isDigit d))
          else Some s)"

definition parseNumber :: "string \<Rightarrow> (json \<times> string) option" where
  "parseNumber s =
     (case skipInt (if startsWith s ''-'' then drop 1 s else s) of
        None \<Rightarrow> None
      | Some s1 \<Rightarrow>
          (case skipFrac s1 of
             None \<Rightarrow> None
           | Some s2 \<Rightarrow>
               (case skipExp s2 of
                  None \<Rightarrow> None
                | Some s3 \<Rightarrow> Some (JNumber (take (length s - length s3) s), s3))))"

definition parseAtom :: "string \<Rightarrow> (json \<times> string) option" where
  "parseAtom s =
     (if startsWith s ''true'' then Some (JBool True, drop 4 s)
      else if startsWith s ''false'' then Some (JBool False, drop 5 s)
      else if startsWith s ''null'' then Some (JNull, drop 4 s)
      else parseNumber s)"

text \<open>The closing quote is consumed, so the rest is shorter than the input.\<close>

lemma parseString_shorter: "parseString acc s = Some (u, r) \<Longrightarrow> length r < length s"
proof (induction acc s rule: parseString.induct)
  case (1 acc)
  then show ?case by simp
next
  case (2 acc c cs)
  show ?case
  proof (cases "c = dq")
    case True
    with 2 show ?thesis by simp
  next
    case False
    note ndq = this
    show ?thesis
    proof (cases "c = bsl")
      case True
      with ndq "2.prems" obtain e r0 where cs: "cs = e # r0"
        by (cases cs) auto
      show ?thesis
      proof (cases "e = CHR ''u''")
        case True
        with ndq \<open>c = bsl\<close> cs "2.prems" obtain h1 h2 h3 h4 r' n where
          r0: "r0 = h1 # h2 # h3 # h4 # r'" and h: "hex4 h1 h2 h3 h4 = Some n"
          and p: "parseString (acc @ [n]) r' = Some (u, r)"
          by (auto split: list.splits option.splits)
        from "2.IH"(1)[OF ndq \<open>c = bsl\<close> cs True r0 _ _ _ h p] have "length r < length r'"
          by simp
        with cs r0 show ?thesis by simp
      next
        case False
        with ndq \<open>c = bsl\<close> cs "2.prems" obtain n where
          h: "escapeOf e = Some n" and p: "parseString (acc @ [n]) r0 = Some (u, r)"
          by (auto split: option.splits)
        from "2.IH"(2)[OF ndq \<open>c = bsl\<close> cs False h p] have "length r < length r0" .
        with cs show ?thesis by simp
      qed
    next
      case False
      with ndq "2.prems" have lo: "\<not> (of_char c :: nat) < 32"
        and p: "parseString (acc @ [of_char c]) cs = Some (u, r)"
        by (auto split: if_splits)
      from "2.IH"(3)[OF ndq False lo p] show ?thesis by simp
    qed
  qed
qed

text \<open>
  A value, the elements of an array behind \<open>[\<close> or a comma, and the members of an
  object behind \<open>{\<close> or a comma. Each returns the value and the rest of the input.
  The tests \<open>length r < length s\<close> on the rest that \<open>parseValue\<close> returns make the
  recursion well-founded; \<open>parseValue_shorter\<close> below shows that they always hold.
\<close>

function parseValue :: "string \<Rightarrow> (json \<times> string) option"
  and parseElems :: "json list \<Rightarrow> string \<Rightarrow> (json \<times> string) option"
  and parseMembers :: "(nat list \<times> json) list \<Rightarrow> string \<Rightarrow> (json \<times> string) option"
where
  "parseValue s =
     (case dropWhile jsonWs s of
        [] \<Rightarrow> None
      | c # r \<Rightarrow>
          if c = CHR ''['' then
            (case dropWhile jsonWs r of
               [] \<Rightarrow> None
             | c' # r' \<Rightarrow> if c' = CHR '']'' then Some (JArray [], r') else parseElems [] r)
          else if c = CHR ''{'' then
            (case dropWhile jsonWs r of
               [] \<Rightarrow> None
             | c' # r' \<Rightarrow> if c' = CHR ''}'' then Some (JObject [], r') else parseMembers [] r)
          else if c = dq then
            (case parseString [] r of None \<Rightarrow> None | Some (u, r') \<Rightarrow> Some (JString u, r'))
          else parseAtom (c # r))"
| "parseElems acc s =
     (case parseValue s of
        None \<Rightarrow> None
      | Some (v, r) \<Rightarrow>
          if length r < length s then
            (case dropWhile jsonWs r of
               [] \<Rightarrow> None
             | c # r' \<Rightarrow>
                 if c = CHR '','' then parseElems (acc @ [v]) r'
                 else if c = CHR '']'' then Some (JArray (acc @ [v]), r')
                 else None)
          else None)"
| "parseMembers acc s =
     (case dropWhile jsonWs s of
        [] \<Rightarrow> None
      | c # r \<Rightarrow>
          if c \<noteq> dq then None
          else
            (case parseString [] r of
               None \<Rightarrow> None
             | Some (k, r1) \<Rightarrow>
                 (case dropWhile jsonWs r1 of
                    [] \<Rightarrow> None
                  | c1 # r2 \<Rightarrow>
                      if c1 \<noteq> CHR '':'' then None
                      else
                        (case parseValue r2 of
                           None \<Rightarrow> None
                         | Some (v, r3) \<Rightarrow>
                             if length r3 < length r2 then
                               (case dropWhile jsonWs r3 of
                                  [] \<Rightarrow> None
                                | c3 # r4 \<Rightarrow>
                                    if c3 = CHR '','' then parseMembers (objPut k v acc) r4
                                    else if c3 = CHR ''}'' then Some (JObject (objPut k v acc), r4)
                                    else None)
                             else None))))"
  by pat_completeness auto
termination
proof (relation "measure (\<lambda>x. case x of Inl s \<Rightarrow> 2 * length s
                                      | Inr (Inl (acc, s)) \<Rightarrow> 2 * length s + 1
                                      | Inr (Inr (acc, s)) \<Rightarrow> 2 * length s + 1)", goal_cases)
  case 1 show ?case by simp
next
  case (2 s c r c' r')
  have "length (dropWhile jsonWs s) \<le> length s" by (rule length_dropWhile_le)
  with 2 show ?case by simp
next
  case (3 s c r c' r')
  have "length (dropWhile jsonWs s) \<le> length s" by (rule length_dropWhile_le)
  with 3 show ?case by simp
next
  case 4 show ?case by simp
next
  case (5 acc s x v r c r')
  have "length (dropWhile jsonWs r) \<le> length r" by (rule length_dropWhile_le)
  with 5 show ?case by simp
next
  case (6 acc s c r x k r1 c1 r2)
  have a: "length (dropWhile jsonWs s) \<le> length s" by (rule length_dropWhile_le)
  have b: "length (dropWhile jsonWs r1) \<le> length r1" by (rule length_dropWhile_le)
  from 6 have c: "length r1 < length r" by (auto dest: parseString_shorter)
  from 6 a b c show ?case by simp
next
  case (7 acc s c r x k r1 c1 r2 x' v r3 c3 r4)
  have a: "length (dropWhile jsonWs s) \<le> length s" by (rule length_dropWhile_le)
  have b: "length (dropWhile jsonWs r1) \<le> length r1" by (rule length_dropWhile_le)
  have d: "length (dropWhile jsonWs r3) \<le> length r3" by (rule length_dropWhile_le)
  from 7 have c: "length r1 < length r" by (auto dest: parseString_shorter)
  from 7 a b c d show ?case by simp
qed

declare parseValue.simps [simp del] parseElems.simps [simp del] parseMembers.simps [simp del]

text \<open>Every value takes at least one character: the tests in the parser never fail.\<close>

lemma dropWhile_Cons_shorter: "dropWhile P s = c # r \<Longrightarrow> length r < length s"
proof -
  assume a: "dropWhile P s = c # r"
  have "length (dropWhile P s) \<le> length s" by (rule length_dropWhile_le)
  with a show ?thesis by simp
qed

lemma skipInt_shorter: "skipInt s = Some r \<Longrightarrow> length r < length s"
  by (cases s) (auto simp: skipInt_def less_Suc_eq_le length_dropWhile_le split: if_splits)

lemma skipFrac_le: "skipFrac s = Some r \<Longrightarrow> length r \<le> length s"
  by (cases s) (auto simp: skipFrac_def le_SucI length_dropWhile_le split: if_splits)

lemma skipExp_le: "skipExp s = Some r \<Longrightarrow> length r \<le> length s"
proof (cases s)
  case Nil
  assume "skipExp s = Some r"
  with Nil show ?thesis by (simp add: skipExp_def)
next
  case (Cons c t)
  assume a: "skipExp s = Some r"
  show ?thesis
  proof (cases "c = CHR ''e'' \<or> c = CHR ''E''")
    case False
    with a Cons show ?thesis by (auto simp: skipExp_def)
  next
    case True
    define d where "d = (case t of [] \<Rightarrow> t | x # r' \<Rightarrow> if x = CHR ''+'' \<or> x = CHR ''-'' then r' else t)"
    have dle: "length d \<le> length t" by (cases t) (auto simp: d_def)
    from a Cons True have "r = dropWhile isDigit d"
      by (auto simp: skipExp_def d_def Let_def split: if_splits)
    moreover have "length (dropWhile isDigit d) \<le> length d" by (rule length_dropWhile_le)
    ultimately show ?thesis using dle Cons by simp
  qed
qed

lemma parseNumber_shorter: "parseNumber s = Some (v, r) \<Longrightarrow> length r < length s"
proof -
  assume a: "parseNumber s = Some (v, r)"
  define s0 where "s0 = (if startsWith s ''-'' then drop 1 s else s)"
  from a obtain s1 s2 where 1: "skipInt s0 = Some s1" and 2: "skipFrac s1 = Some s2" and 3: "skipExp s2 = Some r"
    by (auto simp: parseNumber_def s0_def split: option.splits)
  have "length s0 \<le> length s" by (simp add: s0_def)
  with skipInt_shorter[OF 1] skipFrac_le[OF 2] skipExp_le[OF 3] show ?thesis by simp
qed

lemma startsWith_nonempty: "startsWith s p \<Longrightarrow> p \<noteq> [] \<Longrightarrow> s \<noteq> []"
  by (auto simp: startsWith_def)

lemma parseAtom_shorter: "parseAtom s = Some (v, r) \<Longrightarrow> length r < length s"
proof -
  assume a: "parseAtom s = Some (v, r)"
  have k: "\<And>p n. startsWith s p \<Longrightarrow> p \<noteq> [] \<Longrightarrow> 0 < n \<Longrightarrow> length (drop n s) < length s"
  proof -
    fix p :: string and n :: nat
    assume "startsWith s p" "p \<noteq> []" "0 < n"
    then have "s \<noteq> []" by (auto dest: startsWith_nonempty)
    with \<open>0 < n\<close> show "length (drop n s) < length s" by (cases s) auto
  qed
  from a show ?thesis
    by (auto simp: parseAtom_def split: if_splits dest: parseNumber_shorter k)
qed

lemma parseValue_shorter:
  "parseValue s = Some (v, r) \<Longrightarrow> length r < length s"
  "parseElems acc s = Some (v, r) \<Longrightarrow> length r < length s"
  "parseMembers macc s = Some (v, r) \<Longrightarrow> length r < length s"
proof (induction s and acc s and macc s arbitrary: v r and v r and v r rule: parseValue_parseElems_parseMembers.induct)
  case (1 s)
  from "1.prems" obtain c t where d: "dropWhile jsonWs s = c # t"
    by (cases "dropWhile jsonWs s") (auto simp: parseValue.simps[of s])
  have ts: "length t < length s" using d by (rule dropWhile_Cons_shorter)
  have cs: "length (c # t) \<le> length s" using d length_dropWhile_le[of jsonWs s] by simp
  show ?case
  proof (cases "c = CHR ''[''")
    case True
    with "1.prems" d obtain c' t' where d': "dropWhile jsonWs t = c' # t'"
      by (cases "dropWhile jsonWs t") (auto simp: parseValue.simps[of s])
    have t't: "length t' < length t" using d' by (rule dropWhile_Cons_shorter)
    show ?thesis
    proof (cases "c' = CHR '']''")
      case True
      with "1.prems" d d' \<open>c = CHR ''[''\<close> have "r = t'" by (simp add: parseValue.simps[of s])
      with t't ts show ?thesis by simp
    next
      case False
      with "1.prems" d d' \<open>c = CHR ''[''\<close> have "parseElems [] t = Some (v, r)"
        by (simp add: parseValue.simps[of s])
      from "1.IH"(1)[OF d \<open>c = CHR ''[''\<close> d' False this] ts show ?thesis by simp
    qed
  next
    case False
    note nb = this
    show ?thesis
    proof (cases "c = CHR ''{''")
      case True
      with "1.prems" d nb obtain c' t' where d': "dropWhile jsonWs t = c' # t'"
        by (cases "dropWhile jsonWs t") (auto simp: parseValue.simps[of s])
      have t't: "length t' < length t" using d' by (rule dropWhile_Cons_shorter)
      show ?thesis
      proof (cases "c' = CHR ''}''")
        case True
        with "1.prems" d d' nb \<open>c = CHR ''{''\<close> have "r = t'" by (simp add: parseValue.simps[of s])
        with t't ts show ?thesis by simp
      next
        case False
        with "1.prems" d d' nb \<open>c = CHR ''{''\<close> have "parseMembers [] t = Some (v, r)"
          by (simp add: parseValue.simps[of s])
        from "1.IH"(2)[OF d nb \<open>c = CHR ''{''\<close> d' False this] ts show ?thesis by simp
      qed
    next
      case False
      note nc = this
      show ?thesis
      proof (cases "c = dq")
        case True
        with "1.prems" d nb nc obtain u where "parseString [] t = Some (u, r)"
          by (auto simp: parseValue.simps[of s] split: option.splits)
        from parseString_shorter[OF this] ts show ?thesis by simp
      next
        case False
        with "1.prems" d nb nc have "parseAtom (c # t) = Some (v, r)"
          by (simp add: parseValue.simps[of s])
        from parseAtom_shorter[OF this] cs show ?thesis by simp
      qed
    qed
  qed
next
  case (2 acc s)
  from "2.prems" obtain v0 r0 where pv: "parseValue s = Some (v0, r0)"
    by (cases "parseValue s") (auto simp: parseElems.simps[of acc s])
  from "2.IH"(1)[OF pv] have lt: "length r0 < length s" .
  from "2.prems" pv lt obtain c t where d: "dropWhile jsonWs r0 = c # t"
    by (cases "dropWhile jsonWs r0") (auto simp: parseElems.simps[of acc s])
  have tr: "length t < length r0" using d by (rule dropWhile_Cons_shorter)
  show ?case
  proof (cases "c = CHR '',''")
    case True
    with "2.prems" pv lt d have "parseElems (acc @ [v0]) t = Some (v, r)"
      by (simp add: parseElems.simps[of acc s])
    from "2.IH"(2)[OF pv refl lt d True this] tr lt show ?thesis by simp
  next
    case False
    with "2.prems" pv lt d have "r = t"
      by (auto simp: parseElems.simps[of acc s] split: if_splits)
    with tr lt show ?thesis by simp
  qed
next
  case (3 macc s)
  from "3.prems" obtain c t where d: "dropWhile jsonWs s = c # t"
    by (cases "dropWhile jsonWs s") (auto simp: parseMembers.simps[of macc s])
  have ts: "length t < length s" using d by (rule dropWhile_Cons_shorter)
  from "3.prems" d have cq: "c = dq"
    by (auto simp: parseMembers.simps[of macc s] split: if_splits)
  from "3.prems" d cq obtain k r1 where ps: "parseString [] t = Some (k, r1)"
    by (cases "parseString [] t") (auto simp: parseMembers.simps[of macc s])
  from "3.prems" d cq ps obtain c1 r2 where d1: "dropWhile jsonWs r1 = c1 # r2"
    by (cases "dropWhile jsonWs r1") (auto simp: parseMembers.simps[of macc s])
  from "3.prems" d cq ps d1 have c1: "c1 = CHR '':''"
    by (auto simp: parseMembers.simps[of macc s] split: if_splits)
  from "3.prems" d cq ps d1 c1 obtain v0 r3 where pv: "parseValue r2 = Some (v0, r3)"
    by (cases "parseValue r2") (auto simp: parseMembers.simps[of macc s])
  have nq: "\<not> c \<noteq> dq" using cq by simp
  have nc1: "\<not> c1 \<noteq> CHR '':''" using c1 by simp
  from "3.IH"(1)[OF d nq ps refl d1 nc1 pv] have lt3: "length r3 < length r2" .
  from "3.prems" d cq ps d1 c1 pv lt3 obtain c3 r4 where d3: "dropWhile jsonWs r3 = c3 # r4"
    by (cases "dropWhile jsonWs r3") (auto simp: parseMembers.simps[of macc s])
  have l1: "length r1 < length t" using ps by (rule parseString_shorter)
  have l2: "length r2 < length r1" using d1 by (rule dropWhile_Cons_shorter)
  have l4: "length r4 < length r3" using d3 by (rule dropWhile_Cons_shorter)
  show ?case
  proof (cases "c3 = CHR '',''")
    case True
    with "3.prems" d cq ps d1 c1 pv lt3 d3 have "parseMembers (objPut k v0 macc) r4 = Some (v, r)"
      by (simp add: parseMembers.simps[of macc s])
    from "3.IH"(2)[OF d nq ps refl d1 nc1 pv refl lt3 d3 True this] l1 l2 l4 lt3 ts show ?thesis by simp
  next
    case False
    with "3.prems" d cq ps d1 c1 pv lt3 d3 have "r = r4"
      by (auto simp: parseMembers.simps[of macc s] split: if_splits)
    with l1 l2 l4 lt3 ts show ?thesis by simp
  qed
qed

text \<open>\<open>JSON.parse(s)\<close>: one value, with nothing but white space around it. \<open>None\<close> is the
  SyntaxError.\<close>

definition JSON_parse :: "string \<Rightarrow> json option" where
  "JSON_parse s =
     (case parseValue s of
        None \<Rightarrow> None
      | Some (v, r) \<Rightarrow> if dropWhile jsonWs r = [] then Some v else None)"

section \<open>The upload handler (\<open>POST\<close>)\<close>

subsection \<open>Requests, the environment and responses\<close>

text \<open>
  A thrown value: an \<open>Error\<close> instance with its message, or any other value (for which
  \<open>instanceof Error\<close> is false).
\<close>

datatype exn = JsError string | NonError

text \<open>
  The uploaded file: its name, its declared MIME type (\<open>file.type\<close>) and the outcome of
  \<open>file.arrayBuffer()\<close>, \<open>None\<close> when that rejects. Of the bytes the handler reads
  \<open>buffer.toString('utf-8')\<close> and \<open>buffer.toString('base64')\<close>.
\<close>

record buffer =
  utf8 :: string
  base64 :: string

record upload_file =
  fileName :: string
  fileType :: string
  arrayBuffer :: "buffer option"

text \<open>
  The request: \<open>request.formData()\<close> rejects, or the form has no \<open>file\<close> field, or it has
  a file.
\<close>

datatype request = FormDataFails exn | NoFile | Upload upload_file

text \<open>
  What is passed to \<open>model.generateContent\<close>: the prompt, and for images and PDFs the
  inline data (base64 text and MIME type).
\<close>

record model_request =
  prompt :: string
  inlineData :: "(string \<times> string) option"

text \<open>
  An invocation of the model throws, or returns a result whose \<open>response.text()\<close> throws
  or gives the reply.
\<close>

datatype outcome = Fails exn | Returns "exn + string"

text \<open>
  The environment of one request: the credential \<open>process.env.NEXT_PUBLIC_GEMINI\<close>; the
  schema and instructions appended to every prompt (the literal of lines 238-362, which
  holds characters outside Latin-1); mammoth's two conversions of the buffer (\<open>None\<close> when
  the call throws, otherwise the \<open>value\<close> of its result); the outcome of the \<open>n\<close>-th
  invocation of the model, counted from \<open>0\<close>; and the message of the exception that
  parsing and validating a reply text raises in this engine.
\<close>

record env =
  apiKey :: "string option"
  promptSchema :: string
  extractRawText :: "buffer \<Rightarrow> string option"
  convertToHtml :: "buffer \<Rightarrow> string option"
  generateContent :: "nat \<Rightarrow> model_request \<Rightarrow> outcome"
  parseErrorMessage :: "string \<Rightarrow> string"

text \<open>
  The effects of the handler that the properties speak about, in the order in which they
  happen: the three extraction layers, the invocations of the model and the waits
  between them (in milliseconds).
\<close>

datatype event =
    ExtractRawText
  | ConvertToHtml
  | PlainTextFallback
  | Generate model_request
  | Delay nat

text \<open>A response of \<open>NextResponse.json\<close>: the status (200 when none is given) and the body.\<close>

record response =
  status :: nat
  body :: json

definition obj :: "(string \<times> json) list \<Rightarrow> json" where
  "obj kvs = JObject (map (\<lambda>(k, v). (ustr k, v)) kvs)"

text \<open>The empty skeleton of extracted data that every fallback response carries.\<close>

definition emptyData :: json where
  "emptyData =
     obj [(''name'', jstr []), (''email'', jstr []), (''phone'', jstr []),
          (''skills'', JArray []), (''experience'', JArray []), (''education'', JArray []),
          (''summary'', jstr [])]"

subsection \<open>The type check (lines 21-43)\<close>

definition allowedTypes :: "string list" where
  "allowedTypes =
     [''application/pdf'', ''application/msword'',
      ''application/vnd.openxmlformats-officedocument.wordprocessingml.document'',
      ''text/plain'', ''image/jpeg'', ''image/jpg'', ''image/png'']"

definition allowedExtensions :: "string list" where
  "allowedExtensions = [''pdf'', ''doc'', ''docx'', ''txt'', ''jpeg'', ''jpg'', ''png'']"

definition fileExtension :: "upload_file \<Rightarrow> string" where
  "fileExtension f = lastSegment (toLowerCase (fileName f))"

definition isValidMimeType :: "upload_file \<Rightarrow> bool" where
  "isValidMimeType f = (fileType f \<in> set allowedTypes)"

definition isValidExtension :: "upload_file \<Rightarrow> bool" where
  "isValidExtension f = (fileExtension f \<noteq> [] \<and> fileExtension f \<in> set allowedExtensions)"

definition noFileResponse :: response where
  "noFileResponse = \<lparr>status = 400, body = obj [(''error'', jstr ''No file uploaded'')]\<rparr>"

definition invalidTypeResponse :: "upload_file \<Rightarrow> response" where
  "invalidTypeResponse f =
     \<lparr>status = 400,
      body = obj [(''error'', jstr
        (''Invalid file type. Supported formats: PDF, DOC, DOCX, TXT, JPEG, JPG, PNG. Received: ''
          @ fileType f @ '' ('' @ fileExtension f @ '')''))]\<rparr>"

definition missingKeyResponse :: response where
  "missingKeyResponse =
     \<lparr>status = 500,
      body = obj [(''error'', jstr
        ''AI processing not configured. Please check API key configuration.'')]\<rparr>"

definition unsupportedTypeResponse :: response where
  "unsupportedTypeResponse = \<lparr>status = 400, body = obj [(''error'', jstr ''Unsupported file type'')]\<rparr>"

subsection \<open>The layered extraction of DOC/DOCX text (lines 100-194)\<close>

text \<open>
  The text and the extraction method after the three layers, with the layers that were
  invoked. Raw text first; the HTML conversion when the text is shorter than 50
  characters; and when it is still shorter than 20, the buffer read as plain text, which
  replaces the text only when it is longer. A layer that throws leaves the text as it is.
\<close>

definition extractLayers :: "env \<Rightarrow> buffer \<Rightarrow> (string \<times> string) \<times> event list" where
  "extractLayers env buf =
     (let (t1, m1) = (case extractRawText env buf of
                        Some v \<Rightarrow> (v, ''raw-text'')
                      | None \<Rightarrow> ([], ''unknown''));
          (t2, m2, log2) =
            (if length t1 < 50 then
               (case convertToHtml env buf of
                  Some h \<Rightarrow> (htmlToText h, ''html-fallback'', [ConvertToHtml])
                | None \<Rightarrow> (t1, m1, [ConvertToHtml]))
             else (t1, m1, []));
          (t3, m3, log3) =
            (if length t2 < 20 then
               (if length t2 < length (utf8 buf)
                then (salvage (utf8 buf), ''plain-text-fallback'', [PlainTextFallback])
                else (t2, m2, [PlainTextFallback]))
             else (t2, m2, []))
      in ((t3, m3), ExtractRawText # log2 @ log3))"

subsection \<open>The DOC/DOCX branch (lines 97-231)\<close>

definition emptyDocumentMessage :: string where
  "emptyDocumentMessage =
     ''Document appears to be empty or completely unreadable. Please try saving the document in a different format (PDF recommended) or ensure the document contains readable text.''"

definition corruptedDocumentMessage :: string where
  "corruptedDocumentMessage =
     ''Document content appears to be corrupted or in an unsupported encoding. Please try converting to PDF format.''"

text \<open>The response of the handler for \<open>docError\<close> (lines 215-230).\<close>

definition docErrorResponse :: "string \<Rightarrow> string \<Rightarrow> response" where
  "docErrorResponse name msg =
     \<lparr>status = 200,
      body = obj [(''success'', JBool True),
                  (''fileName'', jstr name),
                  (''extractedData'', emptyData),
                  (''aiProcessed'', JBool False),
                  (''message'', jstr (''Document parsing failed: '' @ msg @
                     ''. Please fill the form manually or try converting your document to PDF format.'')),
                  (''parseError'', JBool True)]\<rparr>"

text \<open>
  The two checks of lines 197-205 and the prompt of line 207. The ratio test
  \<open>specialCharRatio > 0.5\<close> divides two integers with a divisor of at least 10, so it
  holds exactly when twice the count exceeds the length.
\<close>

definition docPrompt :: "env \<Rightarrow> upload_file \<Rightarrow> buffer \<Rightarrow> (response + string) \<times> event list" where
  "docPrompt env f buf =
     (case extractLayers env buf of
        ((t, m), log) \<Rightarrow>
          if length t < 10 then (Inl (docErrorResponse (fileName f) emptyDocumentMessage), log)
          else if length t < 2 * specialChars t \<and> length t < 100
            then (Inl (docErrorResponse (fileName f) corruptedDocumentMessage), log)
          else (Inr (''Extract all information from this resume document ('' @ m @
                     '' extraction from DOCX/DOC format) and format it as JSON with the following structure:''
                     @ [nl, nl] @ ''Resume content:'' @ [nl] @ t @ [nl, nl]), log))"

subsection \<open>The choice of the processing method (lines 78-236) and the prompt\<close>

definition isBinaryType :: "upload_file \<Rightarrow> bool" where
  "isBinaryType f = (startsWith (fileType f) ''image/'' \<or> fileType f = ''application/pdf'')"

definition isTextType :: "upload_file \<Rightarrow> bool" where
  "isTextType f = (fileType f = ''text/plain'' \<or> fileExtension f = ''txt'')"

definition isDocType :: "upload_file \<Rightarrow> bool" where
  "isDocType f =
     (fileType f = ''application/msword'' \<or>
      fileType f = ''application/vnd.openxmlformats-officedocument.wordprocessingml.document'' \<or>
      fileExtension f = ''doc'' \<or> fileExtension f = ''docx'')"

text \<open>
  The request for the model, with the schema appended (line 238), or the response with
  which the handler returns early.
\<close>

definition buildRequest :: "env \<Rightarrow> upload_file \<Rightarrow> buffer \<Rightarrow> (response + model_request) \<times> event list" where
  "buildRequest env f buf =
     (if isBinaryType f then
        (Inr \<lparr>prompt = ''Extract all information from this resume '' @
                 (if fileType f = ''application/pdf'' then ''PDF'' else ''image'') @
                 '' and format it as JSON with the following structure:'' @ promptSchema env,
              inlineData = Some (base64 buf, fileType f)\<rparr>, [])
      else if isTextType f then
        (Inr \<lparr>prompt = ''Extract all information from this resume text and format it as JSON with the following structure:''
                 @ [nl, nl] @ ''Resume content:'' @ [nl] @ utf8 buf @ [nl, nl] @ promptSchema env,
              inlineData = None\<rparr>, [])
      else if isDocType f then
        (case docPrompt env f buf of
           (Inl r, log) \<Rightarrow> (Inl r, log)
         | (Inr p, log) \<Rightarrow> (Inr \<lparr>prompt = p @ promptSchema env, inlineData = None\<rparr>, log))
      else (Inl unsupportedTypeResponse, []))"

subsection \<open>The retry loop (lines 364-409)\<close>

definition maxRetries :: nat where "maxRetries = 3"

definition baseDelay :: nat where "baseDelay = 1000"

text \<open>The test of lines 384-391.\<close>

definition retryable :: "exn \<Rightarrow> bool" where
  "retryable e =
     (case e of
        JsError m \<Rightarrow>
          (let l = toLowerCase m
           in includesStr l ''overloaded'' \<or> includesStr l ''503'' \<or>
              includesStr l ''rate limit'' \<or> includesStr l ''temporarily unavailable'')
      | NonError \<Rightarrow> False)"

text \<open>
  The loop from the value \<open>retryCount\<close> on: the exception that leaves it, or the result of
  the invocation that succeeded, with the invocations and waits made. Each iteration
  either ends the loop or adds one to \<open>retryCount\<close>, so the invocation made at
  \<open>retryCount\<close> is the one with that number. The last branch is the test of line 407
  for a loop that ends without a result.
\<close>

function callWithRetry :: "env \<Rightarrow> model_request \<Rightarrow> nat \<Rightarrow> (exn + (exn + string)) \<times> event list" where
  "callWithRetry env rq retryCount =
     (if retryCount \<le> maxRetries then
        (case generateContent env retryCount rq of
           Returns r \<Rightarrow> (Inr r, [Generate rq])
         | Fails e \<Rightarrow>
             if retryable e \<and> retryCount + 1 \<le> maxRetries then
               (case callWithRetry env rq (retryCount + 1) of
                  (res, log) \<Rightarrow>
                    (res, Generate rq # Delay (baseDelay * 2 ^ (retryCount + 1 - 1)) # log))
             else (Inl e, [Generate rq]))
      else (Inl (JsError ''Failed to get AI response after all retry attempts''), []))"
  by pat_completeness auto
termination
  by (relation "measure (\<lambda>(env, rq, n). maxRetries + 1 - n)") auto

declare callWithRetry.simps [simp del]

subsection \<open>The responses for a failed model call (lines 469-545)\<close>

definition overloadedResponse :: "string \<Rightarrow> response" where
  "overloadedResponse name =
     \<lparr>status = 200,
      body = obj [(''success'', JBool True),
                  (''fileName'', jstr name),
                  (''extractedData'', emptyData),
                  (''aiProcessed'', JBool False),
                  (''parseError'', JBool True),
                  (''message'', jstr (''AI service is temporarily overloaded due to high demand. Your file ''
                     @ [dq] @ name @ [dq] @
                     '' was uploaded successfully. Please fill the form manually, or try uploading again in 2-3 minutes for auto-parsing.'')),
                  (''retryRecommended'', JBool True),
                  (''estimatedRetryTime'', jstr ''2-3 minutes'')]\<rparr>"

definition quotaResponse :: "string \<Rightarrow> response" where
  "quotaResponse name =
     \<lparr>status = 200,
      body = obj [(''success'', JBool True),
                  (''fileName'', jstr name),
                  (''extractedData'', emptyData),
                  (''aiProcessed'', JBool False),
                  (''parseError'', JBool True),
                  (''message'', jstr (''AI service quota exceeded for today. Your file ''
                     @ [dq] @ name @ [dq] @
                     '' was uploaded successfully. Please fill the form manually. Auto-parsing will be available again tomorrow.'')),
                  (''retryRecommended'', JBool False),
                  (''quotaExceeded'', JBool True)]\<rparr>"

definition credentialResponse :: response where
  "credentialResponse =
     \<lparr>status = 401,
      body = obj [(''error'', jstr ''AI service configuration error. Please contact support.''),
                  (''details'', jstr ''Invalid or missing API key'')]\<rparr>"

definition genericAiErrorResponse :: "string \<Rightarrow> response" where
  "genericAiErrorResponse name =
     \<lparr>status = 200,
      body = obj [(''success'', JBool True),
                  (''fileName'', jstr name),
                  (''extractedData'', emptyData),
                  (''aiProcessed'', JBool False),
                  (''parseError'', JBool True),
                  (''message'', jstr
                     ''AI processing encountered an error. File uploaded successfully - please fill the form manually.''),
                  (''error'', jstr ''AI processing failed - manual entry available'')]\<rparr>"

definition aiErrorResponse :: "string \<Rightarrow> exn \<Rightarrow> response" where
  "aiErrorResponse name e =
     (case e of
        JsError m \<Rightarrow>
          (let l = toLowerCase m
           in if includesStr l ''overloaded'' \<or> includesStr l ''503'' then overloadedResponse name
              else if includesStr l ''quota'' \<or> includesStr l ''limit'' then quotaResponse name
              else if includesStr l ''api key'' \<or> includesStr l ''unauthorized'' then credentialResponse
              else genericAiErrorResponse name)
      | NonError \<Rightarrow> genericAiErrorResponse name)"

subsection \<open>The reply of the model (lines 411-467 and 547-552)\<close>

text \<open>
  Lines 427-433 on the parsed value. An object gets an empty \<open>skills\<close> array unless it
  has an array there. An array gets a property that its serialisation does not show.
  On \<open>null\<close> the read of \<open>skills\<close> throws, and on a boolean, a number or a string the
  assignment throws (the module is strict code): \<open>None\<close>.
\<close>

definition validated :: "json \<Rightarrow> json option" where
  "validated d =
     (case d of
        JObject kvs \<Rightarrow>
          (case map_of kvs (ustr ''skills'') of
             Some (JArray xs) \<Rightarrow> Some (JObject kvs)
           | _ \<Rightarrow> Some (JObject (objPut (ustr ''skills'') (JArray []) kvs)))
      | JArray xs \<Rightarrow> Some (JArray xs)
      | _ \<Rightarrow> None)"

definition successResponse :: "string \<Rightarrow> json \<Rightarrow> response" where
  "successResponse name d =
     \<lparr>status = 200,
      body = obj [(''success'', JBool True),
                  (''fileName'', jstr name),
                  (''extractedData'', d),
                  (''aiProcessed'', JBool True)]\<rparr>"

definition parseFailedResponse :: "string \<Rightarrow> string \<Rightarrow> response" where
  "parseFailedResponse t details =
     \<lparr>status = 500,
      body = obj [(''error'', jstr ''Failed to parse AI response''),
                  (''rawResponse'', jstr (take 1000 t)),
                  (''details'', jstr details)]\<rparr>"

definition noJsonResponse :: "string \<Rightarrow> string \<Rightarrow> response" where
  "noJsonResponse t details =
     \<lparr>status = 500,
      body = obj [(''error'', jstr ''Failed to parse AI response - no valid JSON found''),
                  (''rawResponse'', jstr (take 1000 t)),
                  (''details'', jstr details)]\<rparr>"

text \<open>
  The cleaned reply is parsed and validated; when that throws, the span from the first
  opening to the last closing brace is parsed, and taken as it is.
\<close>

definition replyResponse :: "env \<Rightarrow> string \<Rightarrow> string \<Rightarrow> response" where
  "replyResponse env name reply =
     (let t = cleanReply reply
      in case (case JSON_parse t of Some d \<Rightarrow> validated d | None \<Rightarrow> None) of
           Some d \<Rightarrow> successResponse name d
         | None \<Rightarrow>
             (case matchBraces t of
                Some j \<Rightarrow>
                  (case JSON_parse j of
                     Some d \<Rightarrow> successResponse name d
                   | None \<Rightarrow> parseFailedResponse t (parseErrorMessage env t))
              | None \<Rightarrow> noJsonResponse t (parseErrorMessage env t)))"

subsection \<open>The handler\<close>

text \<open>Lines 62-552, behind the type check and the read of the buffer.\<close>

definition processWithAI :: "env \<Rightarrow> upload_file \<Rightarrow> buffer \<Rightarrow> response \<times> event list" where
  "processWithAI env f buf =
     (if apiKey env = None \<or> apiKey env = Some [] then (missingKeyResponse, [])
      else
        (case buildRequest env f buf of
           (Inl r, log) \<Rightarrow> (r, log)
         | (Inr rq, log) \<Rightarrow>
             (case callWithRetry env rq 0 of
                (Inl e, log') \<Rightarrow> (aiErrorResponse (fileName f) e, log @ log')
              | (Inr (Inl e), log') \<Rightarrow> (aiErrorResponse (fileName f) e, log @ log')
              | (Inr (Inr reply), log') \<Rightarrow> (replyResponse env (fileName f) reply, log @ log'))))"

text \<open>The response of the outermost \<open>catch\<close> (lines 554-575).\<close>

definition uploadErrorResponse :: "string \<Rightarrow> response" where
  "uploadErrorResponse name =
     \<lparr>status = 200,
      body = obj [(''success'', JBool True),
                  (''fileName'', jstr name),
                  (''extractedData'', emptyData),
                  (''aiProcessed'', JBool False),
                  (''parseError'', JBool True),
                  (''message'', jstr
                     ''File uploaded successfully, but AI processing failed. Please fill the form manually.''),
                  (''error'', jstr ''AI processing failed, manual entry required'')]\<rparr>"

text \<open>
  \<open>POST\<close>: the response and the effects. Every exception of the body is caught by one of
  the handlers of the source, so the result is always a response.
\<close>

definition POST :: "env \<Rightarrow> request \<Rightarrow> response \<times> event list" where
  "POST env req =
     (case req of
        FormDataFails e \<Rightarrow> (uploadErrorResponse ''unknown'', [])
      | NoFile \<Rightarrow> (noFileResponse, [])
      | Upload f \<Rightarrow>
          if \<not> isValidMimeType f \<and> \<not> isValidExtension f then (invalidTypeResponse f, [])
          else
            (case arrayBuffer f of
               None \<Rightarrow> (uploadErrorResponse (fileName f), [])
             | Some buf \<Rightarrow> processWithAI env f buf))"

section \<open>The upload hook (\<open>uploadMultipleFiles\<close>)\<close>





section \<open>Inputs for the examples\<close>

definition quoted :: "string \<Rightarrow> string" where
  "quoted s = dq # s @ [dq]"

text \<open>The reply \<open>{"name":"A"}\<close>, and an environment in which the model gives it at once.\<close>

definition nameObject :: string where
  "nameObject = ''{'' @ quoted ''name'' @ '':'' @ quoted ''A'' @ ''}''"

definition exampleEnv :: env where
  "exampleEnv =
     \<lparr>apiKey = Some ''key'',
      promptSchema = ''{schema}'',
      extractRawText = (\<lambda>b. None),
      convertToHtml = (\<lambda>b. None),
      generateContent = (\<lambda>n rq. Returns (Inr nameObject)),
      parseErrorMessage = (\<lambda>t. ''Unexpected token'')\<rparr>"

definition exampleBuffer :: buffer where
  "exampleBuffer = \<lparr>utf8 = ''Jane Doe, engineer'', base64 = ''SmFuZSBEb2UsIGVuZ2luZWVy''\<rparr>"

definition exampleFile :: "string \<Rightarrow> string \<Rightarrow> upload_file" where
  "exampleFile name type = \<lparr>fileName = name, fileType = type, arrayBuffer = Some exampleBuffer\<rparr>"




text \<open>Documents for the extraction layers.\<close>

definition longRawText :: string where
  "longRawText = ''Jane Doe. Software engineer with ten years of experience in compilers.''"

definition rawTextEnv :: env where
  "rawTextEnv = exampleEnv\<lparr>extractRawText := (\<lambda>b. Some longRawText)\<rparr>"

definition htmlEnv :: env where
  "htmlEnv = exampleEnv\<lparr>extractRawText := (\<lambda>b. Some ''Jane''),
                          convertToHtml := (\<lambda>b. Some ''<p>Jane Doe</p><p>Software engineer</p>'')\<rparr>"

text \<open>A text file, the request the handler builds for it, and three behaviours of the model.\<close>

definition cvTxt :: upload_file where
  "cvTxt = exampleFile ''cv.txt'' ''text/plain''"

definition cvTxtRequest :: model_request where
  "cvTxtRequest =
     \<lparr>prompt = ''Extract all information from this resume text and format it as JSON with the following structure:''
        @ [nl, nl] @ ''Resume content:'' @ [nl] @ ''Jane Doe, engineer'' @ [nl, nl] @ ''{schema}'',
      inlineData = None\<rparr>"








text \<open>An empty text file, and a file named \<open>.txt\<close> that is declared as a PDF.\<close>

definition emptyTxt :: upload_file where
  "emptyTxt = \<lparr>fileName = ''empty.txt'', fileType = ''text/plain'',
                arrayBuffer = Some \<lparr>utf8 = [], base64 = []\<rparr>\<rparr>"

definition notesTxtAsPdf :: upload_file where
  "notesTxtAsPdf = exampleFile ''notes.txt'' ''application/pdf''"

text \<open>A PDF by its name with a generic declared type, and a file of no allowed type.\<close>

definition cvPdfOctet :: upload_file where
  "cvPdfOctet = exampleFile ''cv.pdf'' ''application/octet-stream''"






definition leadingProseEnv :: env where
  "leadingProseEnv =
     exampleEnv\<lparr>generateContent := (\<lambda>n rq. Returns (Inr (''Here is the data: '' @ nameObject)))\<rparr>"

section \<open>Notions of the statements\<close>

text \<open>The credential is configured: the test of line 66 does not fire.\<close>

definition keyConfigured :: "env \<Rightarrow> bool" where
  "keyConfigured env = (apiKey env \<noteq> None \<and> apiKey env \<noteq> Some [])"



text \<open>The response of the handler for what the retry loop ended with.\<close>

definition aiOutcomeResponse :: "env \<Rightarrow> string \<Rightarrow> exn + (exn + string) \<Rightarrow> response" where
  "aiOutcomeResponse env name res =
     (case res of
        Inl e \<Rightarrow> aiErrorResponse name e
      | Inr (Inl e) \<Rightarrow> aiErrorResponse name e
      | Inr (Inr reply) \<Rightarrow> replyResponse env name reply)"


text \<open>The request that the text branch builds (lines 89-92 and 238).\<close>

definition textPrompt :: "env \<Rightarrow> buffer \<Rightarrow> model_request" where
  "textPrompt env buf =
     \<lparr>prompt = ''Extract all information from this resume text and format it as JSON with the following structure:''
        @ [nl, nl] @ ''Resume content:'' @ [nl] @ utf8 buf @ [nl, nl] @ promptSchema env,
      inlineData = None\<rparr>"





section \<open>Properties\<close>

subsection \<open>Reading the fields of a response\<close>









subsection \<open>The retry loop and the way to the model\<close>








lemma POST_reaches_model:
  assumes "keyConfigured env" "isValidMimeType f \<or> isValidExtension f"
    "arrayBuffer f = Some buf" "buildRequest env f buf = (Inr rq, log0)"
  shows "POST env (Upload f) =
     (aiOutcomeResponse env (fileName f) (fst (callWithRetry env rq 0)),
      log0 @ snd (callWithRetry env rq 0))"
  using assms
  by (auto simp: POST_def processWithAI_def keyConfigured_def aiOutcomeResponse_def
      split: prod.splits sum.splits)









subsection \<open>The paths through the handler\<close>


lemma isTextType_accepted: "isTextType f \<Longrightarrow> isValidMimeType f \<or> isValidExtension f"
  by (auto simp: isTextType_def isValidMimeType_def isValidExtension_def allowedTypes_def
      allowedExtensions_def)



lemma aiErrorResponse_cases:
  "aiErrorResponse name e = overloadedResponse name \<or>
   aiErrorResponse name e = quotaResponse name \<or>
   aiErrorResponse name e = credentialResponse \<or>
   aiErrorResponse name e = genericAiErrorResponse name"
  by (cases e) (simp_all add: aiErrorResponse_def Let_def)

lemma replyResponse_cases:
  "(\<exists>d. replyResponse env name reply = successResponse name d) \<or>
   (\<exists>t m. replyResponse env name reply = parseFailedResponse t m) \<or>
   (\<exists>t m. replyResponse env name reply = noJsonResponse t m)"
  by (auto simp: replyResponse_def Let_def split: option.splits)

lemma aiOutcomeResponse_cases:
  "aiOutcomeResponse env name res = overloadedResponse name \<or>
   aiOutcomeResponse env name res = quotaResponse name \<or>
   aiOutcomeResponse env name res = credentialResponse \<or>
   aiOutcomeResponse env name res = genericAiErrorResponse name \<or>
   (\<exists>d. aiOutcomeResponse env name res = successResponse name d) \<or>
   (\<exists>t m. aiOutcomeResponse env name res = parseFailedResponse t m) \<or>
   (\<exists>t m. aiOutcomeResponse env name res = noJsonResponse t m)"
proof (cases res)
  case (Inl e)
  with aiErrorResponse_cases[of name e] show ?thesis by (auto simp: aiOutcomeResponse_def)
next
  case (Inr x)
  show ?thesis
  proof (cases x)
    case (Inl e)
    with Inr aiErrorResponse_cases[of name e] show ?thesis by (auto simp: aiOutcomeResponse_def)
  next
    case (Inr reply)
    with \<open>res = Inr x\<close> replyResponse_cases[of env name reply] show ?thesis
      by (auto simp: aiOutcomeResponse_def)
  qed
qed

lemma not_docErrorResponse:
  "overloadedResponse name \<noteq> docErrorResponse name' msg"
  "quotaResponse name \<noteq> docErrorResponse name' msg"
  "credentialResponse \<noteq> docErrorResponse name' msg"
  "genericAiErrorResponse name \<noteq> docErrorResponse name' msg"
  "successResponse name d \<noteq> docErrorResponse name' msg"
  "parseFailedResponse t m \<noteq> docErrorResponse name' msg"
  "noJsonResponse t m \<noteq> docErrorResponse name' msg"
  by (simp_all add: overloadedResponse_def quotaResponse_def credentialResponse_def
      genericAiErrorResponse_def successResponse_def parseFailedResponse_def noJsonResponse_def
      docErrorResponse_def obj_def)

lemma aiOutcomeResponse_not_docError:
  "aiOutcomeResponse env name res \<noteq> docErrorResponse name' msg"
  using aiOutcomeResponse_cases[of env name res] by (auto simp: not_docErrorResponse)

lemma callWithRetry_starts: "\<exists>rest. snd (callWithRetry env rq 0) = Generate rq # rest"
  by (auto simp: callWithRetry.simps[of env rq 0] maxRetries_def split: outcome.splits prod.splits)

lemma callWithRetry_events:
  "set (snd (callWithRetry env rq n)) \<subseteq> insert (Generate rq) (range Delay)"
proof (induction env rq n rule: callWithRetry.induct)
  case (1 env rq n)
  show ?case
  proof (cases "n \<le> maxRetries")
    case False
    then show ?thesis by (simp add: callWithRetry.simps[of env rq n])
  next
    case True
    show ?thesis
    proof (cases "generateContent env n rq")
      case (Returns r)
      with True show ?thesis by (simp add: callWithRetry.simps[of env rq n])
    next
      case (Fails e)
      show ?thesis
      proof (cases "retryable e \<and> n + 1 \<le> maxRetries")
        case False
        with True Fails show ?thesis by (auto simp: callWithRetry.simps[of env rq n])
      next
        case c: True
        from "1.IH"[OF True Fails c]
        have "set (snd (callWithRetry env rq (n + 1))) \<subseteq> insert (Generate rq) (range Delay)" .
        with True Fails c show ?thesis
          by (auto simp: callWithRetry.simps[of env rq n] split: prod.splits)
      qed
    qed
  qed
qed



lemma POST_with_key:
  assumes "isValidMimeType f \<or> isValidExtension f" "keyConfigured env" "arrayBuffer f = Some buf"
  shows "POST env (Upload f) =
     (case buildRequest env f buf of
        (Inl r, log) \<Rightarrow> (r, log)
      | (Inr rq, log) \<Rightarrow>
          (aiOutcomeResponse env (fileName f) (fst (callWithRetry env rq 0)),
           log @ snd (callWithRetry env rq 0)))"
  using assms
  by (auto simp: POST_def processWithAI_def keyConfigured_def aiOutcomeResponse_def
      split: prod.splits sum.splits)










text \<open>
  A file that passed the type check by its extension \<open>pdf\<close>, \<open>jpeg\<close>, \<open>jpg\<close> or \<open>png\<close>
  alone selects no processing method, and the last branch (lines 232-236) refuses it.
\<close>

lemma unsupported_without_method:
  assumes "isValidMimeType f \<or> isValidExtension f" "keyConfigured env" "arrayBuffer f = Some buf"
    and "\<not> isBinaryType f" "\<not> isTextType f" "\<not> isDocType f"
  shows "POST env (Upload f) = (unsupportedTypeResponse, [])"
proof -
  from assms(4-6) have "buildRequest env f buf = (Inl unsupportedTypeResponse, [])"
    by (simp add: buildRequest_def)
  with POST_with_key[OF assms(1-3)] show ?thesis by simp
qed

lemma pdf_extension_with_generic_type:
  "isValidExtension cvPdfOctet \<and> \<not> isValidMimeType cvPdfOctet \<and> keyConfigured exampleEnv \<and>
   POST exampleEnv (Upload cvPdfOctet) = (unsupportedTypeResponse, []) \<and>
   status unsupportedTypeResponse = 400"
  by code_simp

subsection \<open>The span between the braces\<close>


subsection \<open>The shapes of the responses\<close>












subsection \<open>The responses for an accepted file\<close>




subsection \<open>The type check\<close>




subsection \<open>The retry policy\<close>



subsection \<open>A reply with trailing prose\<close>




subsection \<open>The extracted data of a response\<close>




subsection \<open>The unreadable document\<close>




subsection \<open>The order of the extraction layers\<close>

text \<open>
  Claim C7. The layers of the DOC/DOCX extraction are tried in order and stop early. When
  the raw-text extraction yields at least 50 characters, the text is the raw text and
  neither the HTML conversion nor the plain-text salvage is invoked. When the raw-text
  extraction yields fewer than 50 characters (or throws) and the cleaned text of the HTML
  conversion has at least 20 characters, the text is that cleaned text and the salvage is
  not invoked.
\<close>

theorem layers_short_circuit:
  "(\<forall>raw. extractRawText env buf = Some raw \<and> 50 \<le> length raw \<longrightarrow>
      extractLayers env buf = ((raw, ''raw-text''), [ExtractRawText])) \<and>
   (\<forall>h. (case extractRawText env buf of Some raw \<Rightarrow> length raw < 50 | None \<Rightarrow> True) \<and>
        convertToHtml env buf = Some h \<and> 20 \<le> length (htmlToText h) \<longrightarrow>
      extractLayers env buf = ((htmlToText h, ''html-fallback''), [ExtractRawText, ConvertToHtml]))"
proof (intro conjI allI impI)
  fix raw
  assume "extractRawText env buf = Some raw \<and> 50 \<le> length raw"
  then show "extractLayers env buf = ((raw, ''raw-text''), [ExtractRawText])"
    by (simp add: extractLayers_def)
next
  fix h
  assume a: "(case extractRawText env buf of Some raw \<Rightarrow> length raw < 50 | None \<Rightarrow> True) \<and>
        convertToHtml env buf = Some h \<and> 20 \<le> length (htmlToText h)"
  show "extractLayers env buf = ((htmlToText h, ''html-fallback''), [ExtractRawText, ConvertToHtml])"
  proof (cases "extractRawText env buf")
    case None
    with a show ?thesis by (simp add: extractLayers_def)
  next
    case (Some raw)
    with a show ?thesis by (simp add: extractLayers_def)
  qed
qed

text \<open>A document with a long raw text, and one whose text comes from the HTML conversion.\<close>

theorem layers_short_circuit_witness:
  "extractLayers rawTextEnv exampleBuffer = ((longRawText, ''raw-text''), [ExtractRawText]) \<and>
   extractLayers htmlEnv exampleBuffer =
     ((''Jane Doe'' @ [nl] @ ''Software engineer'', ''html-fallback''), [ExtractRawText, ConvertToHtml])"
proof -
  have h: "htmlToText ''<p>Jane Doe</p><p>Software engineer</p>'' = ''Jane Doe'' @ [nl] @ ''Software engineer''"
    by code_simp
  have r: "extractRawText rawTextEnv exampleBuffer = Some longRawText \<and> 50 \<le> length longRawText"
    by (simp add: rawTextEnv_def exampleEnv_def longRawText_def)
  have s: "(case extractRawText htmlEnv exampleBuffer of Some raw \<Rightarrow> length raw < 50 | None \<Rightarrow> True) \<and>
        convertToHtml htmlEnv exampleBuffer = Some ''<p>Jane Doe</p><p>Software engineer</p>'' \<and>
        20 \<le> length (htmlToText ''<p>Jane Doe</p><p>Software engineer</p>'')"
    by (simp add: htmlEnv_def exampleEnv_def h)
  from layers_short_circuit[of rawTextEnv exampleBuffer] r
  have 1: "extractLayers rawTextEnv exampleBuffer = ((longRawText, ''raw-text''), [ExtractRawText])"
    by blast
  from layers_short_circuit[of htmlEnv exampleBuffer] s
  have 2: "extractLayers htmlEnv exampleBuffer =
     ((htmlToText ''<p>Jane Doe</p><p>Software engineer</p>'', ''html-fallback''), [ExtractRawText, ConvertToHtml])"
    by blast
  from 1 2 h show ?thesis by simp
qed

subsection \<open>The skills of a repaired reply\<close>

text \<open>
  Claim C8 is what the handler does for a reply that parses directly, and what the spec
  asks for; the repair path misses it. For the reply \<open>Here is the data: {"name":"A"}\<close>
  the direct parse fails, the span between the braces parses to an object without
  \<open>skills\<close>, and the handler returns that object as it is (line 451), while the same
  object sent alone gets its empty \<open>skills\<close> array (lines 430-433).
\<close>

theorem repair_parse_keeps_missing_skills:
  "JSON_parse (cleanReply (''Here is the data: '' @ nameObject)) = None \<and>
   matchBraces (cleanReply (''Here is the data: '' @ nameObject)) = Some nameObject \<and>
   POST leadingProseEnv (Upload cvTxt) =
     (successResponse ''cv.txt'' (obj [(''name'', jstr ''A'')]), [Generate cvTxtRequest]) \<and>
   field ''skills'' (obj [(''name'', jstr ''A'')]) = None \<and>
   fst (POST exampleEnv (Upload cvTxt)) =
     successResponse ''cv.txt'' (obj [(''name'', jstr ''A''), (''skills'', JArray [])])"
  by code_simp

subsection \<open>The results of a batch\<close>



subsection \<open>Text files\<close>

text \<open>
  Claim C10, as stated, fails: a file named \<open>notes.txt\<close> that is declared as
  \<open>application/pdf\<close> takes the branch of line 79. The model gets the base64 bytes as
  inline data and a prompt that does not hold the decoded text.
\<close>

theorem txt_extension_with_pdf_type:
  "fileExtension notesTxtAsPdf = ''txt'' \<and>
   keyConfigured exampleEnv \<and>
   \<not> includesStr ''Extract all information from this resume PDF and format it as JSON with the following structure:{schema}''
       (utf8 exampleBuffer) \<and>
   POST exampleEnv (Upload notesTxtAsPdf) =
     (successResponse ''notes.txt'' (obj [(''name'', jstr ''A''), (''skills'', JArray [])]),
      [Generate \<lparr>prompt = ''Extract all information from this resume PDF and format it as JSON with the following structure:{schema}'',
                 inlineData = Some (''SmFuZSBEb2UsIGVuZ2luZWVy'', ''application/pdf'')\<rparr>])"
  by code_simp

text \<open>
  Claim C10, amended. Let the credential be configured and the file be read. For every
  file whose type is neither an image nor a PDF, and whose type is \<open>text/plain\<close> or whose
  extension is \<open>txt\<close>, the handler does what the retry loop and the reply give for the
  request with the decoded content in the prompt, whatever the content is: its first
  effect is the invocation of the model, no extraction layer runs, neither the length
  nor the characters of the content are inspected, and the response is never the
  unreadable-document fallback.
\<close>

theorem text_file_goes_to_model:
  assumes "keyConfigured env" "\<not> isBinaryType f" "isTextType f" "arrayBuffer f = Some buf"
  shows "POST env (Upload f) =
           (aiOutcomeResponse env (fileName f) (fst (callWithRetry env (textPrompt env buf) 0)),
            snd (callWithRetry env (textPrompt env buf) 0)) \<and>
         (\<exists>rest. snd (POST env (Upload f)) = Generate (textPrompt env buf) # rest) \<and>
         ExtractRawText \<notin> set (snd (POST env (Upload f))) \<and>
         ConvertToHtml \<notin> set (snd (POST env (Upload f))) \<and>
         PlainTextFallback \<notin> set (snd (POST env (Upload f))) \<and>
         (\<forall>name msg. fst (POST env (Upload f)) \<noteq> docErrorResponse name msg)"
proof -
  have b: "buildRequest env f buf = (Inr (textPrompt env buf), [])"
    using assms(2,3) by (simp add: buildRequest_def textPrompt_def)
  note p = POST_reaches_model[OF assms(1) isTextType_accepted[OF assms(3)] assms(4) b]
  from callWithRetry_starts[of env "textPrompt env buf"] p
  have 1: "\<exists>rest. snd (POST env (Upload f)) = Generate (textPrompt env buf) # rest" by simp
  from callWithRetry_events[of env "textPrompt env buf" 0] p
  have 2: "ExtractRawText \<notin> set (snd (POST env (Upload f)))"
    "ConvertToHtml \<notin> set (snd (POST env (Upload f)))"
    "PlainTextFallback \<notin> set (snd (POST env (Upload f)))" by auto
  from p have 3: "\<forall>name msg. fst (POST env (Upload f)) \<noteq> docErrorResponse name msg"
    by (simp add: aiOutcomeResponse_not_docError)
  from p 1 2 3 show ?thesis by simp
qed

text \<open>An empty text file goes to the model.\<close>

theorem text_file_goes_to_model_witness:
  "(\<exists>rest. snd (POST exampleEnv (Upload emptyTxt)) =
      Generate \<lparr>prompt = ''Extract all information from this resume text and format it as JSON with the following structure:''
                  @ [nl, nl] @ ''Resume content:'' @ [nl] @ [nl, nl] @ ''{schema}'',
                inlineData = None\<rparr> # rest) \<and>
   PlainTextFallback \<notin> set (snd (POST exampleEnv (Upload emptyTxt)))"
proof -
  have k: "keyConfigured exampleEnv" by (simp add: keyConfigured_def exampleEnv_def)
  have b: "\<not> isBinaryType emptyTxt" by code_simp
  have t: "isTextType emptyTxt" by (simp add: isTextType_def emptyTxt_def)
  have a: "arrayBuffer emptyTxt = Some \<lparr>utf8 = [], base64 = []\<rparr>" by (simp add: emptyTxt_def)
  have p: "textPrompt exampleEnv \<lparr>utf8 = [], base64 = []\<rparr> =
      \<lparr>prompt = ''Extract all information from this resume text and format it as JSON with the following structure:''
                  @ [nl, nl] @ ''Resume content:'' @ [nl] @ [nl, nl] @ ''{schema}'',
                inlineData = None\<rparr>"
    by (simp add: textPrompt_def exampleEnv_def)
  from text_file_goes_to_model[OF k b t a] show ?thesis unfolding p by blast
qed

end
